theory Spec2Isabelle
  imports Main "HOL-Library.Char_ord" "HOL-Library.List_Lexorder" "HOL-Library.Multiset"
begin

section \<open>Python primitives used by \<open>process_media.py\<close>\<close>

text \<open>
  Strings are byte lists; the model covers ASCII text. Python integers are unbounded,
  so they are \<open>int\<close>.
\<close>

subsection \<open>\<open>str(n)\<close> for an integer\<close>

definition digit_char :: "nat \<Rightarrow> char" where
  "digit_char d = ''0123456789'' ! d"

fun str_nat :: "nat \<Rightarrow> string" where
  "str_nat n = (if n < 10 then [digit_char n] else str_nat (n div 10) @ [digit_char (n mod 10)])"

declare str_nat.simps [simp del]

definition str_int :: "int \<Rightarrow> string" where
  "str_int i = (if i < 0 then CHR ''-'' # str_nat (nat (- i)) else str_nat (nat i))"

subsection \<open>\<open>int(s)\<close> for a string\<close>

text \<open>
  \<open>int(s)\<close> in base 10: surrounding whitespace is dropped, one sign is allowed, then
  decimal digits follow, where single underscores may stand between two digits.
  Anything else raises \<open>ValueError\<close>, which is \<open>None\<close> here.
\<close>

definition is_space :: "char \<Rightarrow> bool" where
  "is_space c = (c \<in> set [CHR 0x09, CHR 0x0A, CHR 0x0B, CHR 0x0C, CHR 0x0D, CHR '' ''])"

definition is_digit :: "char \<Rightarrow> bool" where
  "is_digit c = (c \<in> set ''0123456789'')"

definition digit_val :: "char \<Rightarrow> nat" where
  "digit_val c = of_char c - 48"

definition strip_space :: "string \<Rightarrow> string" where
  "strip_space s = rev (dropWhile is_space (rev (dropWhile is_space s)))"

fun int_digits :: "nat \<Rightarrow> string \<Rightarrow> nat option" where
  "int_digits acc [] = Some acc"
| "int_digits acc [c] = (if is_digit c then Some (10 * acc + digit_val c) else None)"
| "int_digits acc (c # d # cs) =
     (if is_digit c then int_digits (10 * acc + digit_val c) (d # cs)
      else if c = CHR ''_'' \<and> is_digit d then int_digits (10 * acc + digit_val d) cs
      else None)"

definition nat_literal :: "string \<Rightarrow> nat option" where
  "nat_literal s =
     (case s of
        [] \<Rightarrow> None
      | c # cs \<Rightarrow> if is_digit c then int_digits (digit_val c) cs else None)"

definition py_int :: "string \<Rightarrow> int option" where
  "py_int s =
     (case strip_space s of
        [] \<Rightarrow> None
      | c # cs \<Rightarrow>
          if c = CHR ''-'' then map_option (\<lambda>n. - int n) (nat_literal cs)
          else if c = CHR ''+'' then map_option int (nat_literal cs)
          else map_option int (nat_literal (c # cs)))"

subsection \<open>\<open>s.lower()\<close>\<close>

definition lower_char :: "char \<Rightarrow> char" where
  "lower_char c =
     (case map_of (zip ''ABCDEFGHIJKLMNOPQRSTUVWXYZ'' ''abcdefghijklmnopqrstuvwxyz'') c of
        None \<Rightarrow> c
      | Some l \<Rightarrow> l)"

definition lower :: "string \<Rightarrow> string" where
  "lower s = map lower_char s"

section \<open>Data model\<close>

text \<open>
  A preset is a JSON object read with \<open>p["k"]\<close> and \<open>p.get("k", default)\<close>. Each key the
  program reads is a field; \<open>None\<close> is an absent key. The model is typed: a field holds
  a value of the type the program expects there. The \<open>encode\<close> field is a dictionary of
  its own; its type is a parameter, so that the same record describes a preset by value
  (\<open>encode preset\<close>) and a preset object on the heap, which refers to its encode
  dictionary by address.
\<close>

record encode =
  mode :: "string option"
  video_bitrate :: "string option"
  crf :: "int option"
  x264_preset :: "string option"

record 'e preset_of =
  width :: "int option"
  height :: "int option"
  fps :: "int option"
  strategy :: "string option"
  pad_color :: "string option"
  vcodec :: "string option"
  pix_fmt :: "string option"
  profile :: "string option"
  audio_bitrate :: "string option"
  container :: "string option"
  encode :: "'e option"

type_synonym preset = "encode preset_of"

text \<open>Exceptions the modelled code raises.\<close>

datatype pyexc =
    ValueError string   \<comment> \<open>\<open>raise ValueError(msg)\<close>\<close>
  | IntValueError string   \<comment> \<open>the \<open>ValueError\<close> of \<open>int(s)\<close>, with the text \<open>s\<close>\<close>
  | KeyError string   \<comment> \<open>\<open>d[k]\<close> on an absent key\<close>

definition get :: "'a option \<Rightarrow> 'a \<Rightarrow> 'a" where
  "get field dflt = (case field of None \<Rightarrow> dflt | Some v \<Rightarrow> v)"

section \<open>Filter Graph Builder: \<open>build_filter\<close>\<close>

definition build_filter :: "int \<Rightarrow> int \<Rightarrow> string \<Rightarrow> string \<Rightarrow> pyexc + string" where
  "build_filter w h strat pad_col =
     (if strat = ''cover'' then
        Inr (''scale='' @ str_int w @ '':'' @ str_int h @ '':force_original_aspect_ratio=increase,''
             @ ''crop='' @ str_int w @ '':'' @ str_int h @ '',setsar=1'')
      else if strat = ''contain'' then
        Inr (''scale='' @ str_int w @ '':'' @ str_int h @ '':force_original_aspect_ratio=decrease,''
             @ ''pad='' @ str_int w @ '':'' @ str_int h @ '':(ow-iw)/2:(oh-ih)/2:'' @ pad_col
             @ '',setsar=1'')
      else Inl (ValueError (''strategy must be 'cover' or 'contain'' @ [CHR 0x27])))"

section \<open>Encode Args Builder: \<open>build_video_args\<close>\<close>

definition build_video_args :: "encode \<Rightarrow> pyexc + string list" where
  "build_video_args enc =
     (let args = [''-preset'', get (x264_preset enc) ''medium''];
          m = lower (get (mode enc) ''bitrate'')
      in if m = ''bitrate'' then
           (let vb = get (video_bitrate enc) ''5000k''
            in case py_int (butlast vb) of
                 None \<Rightarrow> Inl (IntValueError (butlast vb))
               | Some n \<Rightarrow>
                   Inr (args @ [''-b:v'', vb, ''-maxrate'', vb, ''-bufsize'', str_int (n * 2) @ ''k'']))
         else if m = ''crf'' then
           Inr (args @ [''-crf'', str_int (get (crf enc) 20), ''-b:v'', ''0''])
         else Inl (ValueError (''encode.mode must be 'bitrate' or 'crf'' @ [CHR 0x27])))"

section \<open>Command Builder: \<open>build_cmd\<close>\<close>

text \<open>
  \<open>pathlib\<close> is library code: a path is a value of a type \<open>'p\<close>, and the three
  operations the program uses on it are parameters.
\<close>

record 'p pathlib =
  path_str :: "'p \<Rightarrow> string"   \<comment> \<open>\<open>str(path)\<close>\<close>
  path_stem :: "'p \<Rightarrow> string"   \<comment> \<open>\<open>path.stem\<close>\<close>
  path_join :: "'p \<Rightarrow> string \<Rightarrow> 'p"   \<comment> \<open>\<open>path / name\<close>\<close>

definition default_encode :: encode where
  "default_encode =
     \<lparr>mode = Some ''bitrate'', video_bitrate = Some ''5000k'', crf = None,
      x264_preset = Some ''medium''\<rparr>"

definition build_cmd :: "'p pathlib \<Rightarrow> 'p \<Rightarrow> 'p \<Rightarrow> preset \<Rightarrow> pyexc + string list" where
  "build_cmd lib infile outfile p =
     (case width p of
        None \<Rightarrow> Inl (KeyError ''width'')
      | Some w \<Rightarrow>
     (case height p of
        None \<Rightarrow> Inl (KeyError ''height'')
      | Some h \<Rightarrow>
     (let fps' = get (fps p) 30;
          strategy' = get (strategy p) ''cover'';
          pad_color' = get (pad_color p) ''black'';
          vcodec' = get (vcodec p) ''libx264'';
          pix_fmt' = get (pix_fmt p) ''yuv420p'';
          profile' = get (profile p) ''high'';
          audio_bitrate' = get (audio_bitrate p) ''128k''
      in case build_filter w h strategy' pad_color' of
           Inl e \<Rightarrow> Inl e
         | Inr vf \<Rightarrow>
        (case build_video_args (get (encode p) default_encode) of
           Inl e \<Rightarrow> Inl e
         | Inr v_args \<Rightarrow>
             Inr ([''ffmpeg'', ''-y'',
                   ''-i'', path_str lib infile,
                   ''-vf'', vf,
                   ''-r'', str_int fps',
                   ''-c:v'', vcodec',
                   ''-profile:v'', profile',
                   ''-pix_fmt'', pix_fmt']
                  @ v_args
                  @ [''-movflags'', ''+faststart'',
                     ''-c:a'', ''aac'',
                     ''-b:a'', audio_bitrate',
                     path_str lib outfile])))))"

section \<open>Output Namer and \<open>process_one\<close>\<close>

definition normalize_outname :: "string \<Rightarrow> string \<Rightarrow> string \<Rightarrow> string" where
  "normalize_outname stem preset_name cont = stem @ ''_'' @ preset_name @ ''.'' @ cont"

fun join :: "string \<Rightarrow> string list \<Rightarrow> string" where
  "join sep [] = []"
| "join sep [x] = x"
| "join sep (x # y # ys) = x @ sep @ join sep (y # ys)"

text \<open>
  The external encoder is a parameter: \<open>subprocess.call(cmd)\<close> takes the command and the
  state of the world and returns the exit status and the new world. What the process
  prints is the list \<open>stdout\<close> of lines.
\<close>

record 'w io =
  world :: 'w
  stdout :: "string list"

definition print :: "string \<Rightarrow> ('w, 'x) io_scheme \<Rightarrow> ('w, 'x) io_scheme" where
  "print line s = s\<lparr>stdout := stdout s @ [line]\<rparr>"

definition process_one ::
  "'p pathlib \<Rightarrow> (string list \<Rightarrow> 'w \<Rightarrow> int \<times> 'w) \<Rightarrow> 'p \<Rightarrow> 'p \<Rightarrow> string \<Rightarrow> preset \<Rightarrow> bool
     \<Rightarrow> ('w, 'x) io_scheme \<Rightarrow> (pyexc + int) \<times> ('w, 'x) io_scheme" where
  "process_one lib call infile outdir preset_name p dry_run s =
     (let container' = get (container p) ''mp4'';
          outfile = path_join lib outdir
                      (normalize_outname (path_stem lib infile) preset_name container')
      in case build_cmd lib infile outfile p of
           Inl e \<Rightarrow> (Inl e, s)
         | Inr cmd \<Rightarrow>
             if dry_run then (Inr 0, print (''DRY RUN: '' @ join '' '' cmd) s)
             else (let s' = print (''Running: '' @ join '' '' cmd) s;
                       (code, w') = call cmd (world s')
                   in (Inr code, s'\<lparr>world := w'\<rparr>)))"

section \<open>Input collection: \<open>collect_inputs\<close>\<close>

text \<open>
  The file system is a parameter. \<open>VIDEO_EXTS\<close> is a Python set, whose iteration order
  is not fixed: \<open>ext_order\<close> is the order in which one run enumerates it.
  \<open>sorted(files)\<close> sorts paths by their order \<open>\<le>\<close>.
\<close>

definition VIDEO_EXTS :: "string set" where
  "VIDEO_EXTS = {''.mp4'', ''.mov'', ''.m4v'', ''.mkv'', ''.avi'', ''.webm''}"

record 'p filesystem =
  is_file :: "'p \<Rightarrow> bool"
  is_dir :: "'p \<Rightarrow> bool"
  rglob :: "'p \<Rightarrow> string \<Rightarrow> 'p list"
  ext_order :: "string list"

datatype setup_error =
    SysExit string   \<comment> \<open>\<open>sys.exit(message)\<close>\<close>
  | JSONDecodeError   \<comment> \<open>raised by \<open>json.load\<close>\<close>

definition collect_inputs ::
  "'p pathlib \<Rightarrow> ('p :: linorder) filesystem \<Rightarrow> 'p \<Rightarrow> (setup_error + 'p list) \<times> string list" where
  "collect_inputs lib fs input_path =
     (if is_file fs input_path then (Inr [input_path], [])
      else if is_dir fs input_path then
        (let files = foldl (\<lambda>files ext. files @ rglob fs input_path (''*'' @ ext)) []
                       (ext_order fs)
         in (Inr (sort files),
             if files = [] then [''Warning: No videos found in '' @ path_str lib input_path]
             else []))
      else (Inl (SysExit (''Error: input path does not exist: '' @ path_str lib input_path)), []))"

section \<open>Override Merger: \<open>apply_overrides\<close>\<close>

text \<open>
  The override fields of the \<open>argparse\<close> namespace: \<open>None\<close> when the option was not
  given. \<open>if args.x:\<close> tests truthiness: \<open>None\<close>, \<open>0\<close> and the empty string are false.
\<close>

record overrides =
  arg_width :: "int option"
  arg_height :: "int option"
  arg_fps :: "int option"
  arg_strategy :: "string option"
  arg_mode :: "string option"
  arg_video_bitrate :: "string option"
  arg_crf :: "int option"
  arg_x264_preset :: "string option"
  arg_audio_bitrate :: "string option"

definition truthy_int :: "int option \<Rightarrow> bool" where
  "truthy_int a = (case a of None \<Rightarrow> False | Some n \<Rightarrow> n \<noteq> 0)"

definition truthy_str :: "string option \<Rightarrow> bool" where
  "truthy_str a = (case a of None \<Rightarrow> False | Some s \<Rightarrow> s \<noteq> [])"

definition empty_encode :: encode where
  "empty_encode = \<lparr>mode = None, video_bitrate = None, crf = None, x264_preset = None\<rparr>"

text \<open>The statements on the dictionary \<open>enc\<close>, in the order of the source.\<close>

definition override_encode :: "overrides \<Rightarrow> encode \<Rightarrow> encode" where
  "override_encode args enc =
     (let enc = (if truthy_str (arg_mode args) then enc\<lparr>mode := arg_mode args\<rparr> else enc);
          enc = (if truthy_str (arg_video_bitrate args)
                 then enc\<lparr>video_bitrate := arg_video_bitrate args\<rparr> else enc);
          enc = (case arg_crf args of
                   None \<Rightarrow> enc
                 | Some c \<Rightarrow> enc\<lparr>mode := Some ''crf'', crf := Some c\<rparr>);
          enc = (if truthy_str (arg_x264_preset args)
                 then enc\<lparr>x264_preset := arg_x264_preset args\<rparr> else enc)
      in enc)"

text \<open>The statements on \<open>out\<close> before the encode block.\<close>

definition override_head :: "overrides \<Rightarrow> 'e preset_of \<Rightarrow> 'e preset_of" where
  "override_head args out =
     (let out = (if truthy_int (arg_width args) then out\<lparr>width := arg_width args\<rparr> else out);
          out = (if truthy_int (arg_height args) then out\<lparr>height := arg_height args\<rparr> else out);
          out = (if truthy_int (arg_fps args) then out\<lparr>fps := arg_fps args\<rparr> else out);
          out = (if truthy_str (arg_strategy args) then out\<lparr>strategy := arg_strategy args\<rparr>
                 else out)
      in out)"

text \<open>The statement on \<open>out\<close> after the encode block.\<close>

definition override_audio :: "overrides \<Rightarrow> 'e preset_of \<Rightarrow> 'e preset_of" where
  "override_audio args out =
     (if truthy_str (arg_audio_bitrate args) then out\<lparr>audio_bitrate := arg_audio_bitrate args\<rparr>
      else out)"

definition apply_overrides :: "preset \<Rightarrow> overrides \<Rightarrow> preset" where
  "apply_overrides p args =
     (let out = override_head args p;
          enc = override_encode args (get (encode out) empty_encode);
          out = out\<lparr>encode := Some enc\<rparr>
      in override_audio args out)"

section \<open>Preset Store: \<open>load_presets\<close>\<close>

text \<open>
  The presets file is a parameter: it is missing, or its text is not JSON, or it parses to
  a mapping from preset names to presets.
\<close>

type_synonym presets = "string \<rightharpoonup> preset"

datatype presets_file = NoFile | NotJson | Json presets

definition load_presets :: "'p pathlib \<Rightarrow> 'p \<Rightarrow> presets_file \<Rightarrow> setup_error + presets" where
  "load_presets lib preset_path file =
     (case file of
        NoFile \<Rightarrow> Inl (SysExit (''Error: presets file not found at '' @ path_str lib preset_path))
      | NotJson \<Rightarrow> Inl JSONDecodeError
      | Json doc \<Rightarrow> Inr doc)"

section \<open>Batch Orchestrator: the job loop of \<open>main\<close>\<close>

text \<open>
  The state of the loop: the world and the printed lines, the variable \<open>exit_code\<close>,
  and a history \<open>ran\<close> that the program does not keep: the jobs for which
  \<open>process_one\<close> has returned, in order, each with the code it returned.
\<close>

record ('w, 'p) batch = "'w io" +
  exit_code :: int
  ran :: "('p \<times> string \<times> int) list"

record ('w, 'p) ctx =
  the_lib :: "'p pathlib"
  the_call :: "string list \<Rightarrow> 'w \<Rightarrow> int \<times> 'w"
  the_presets :: presets
  the_args :: overrides
  the_dry_run :: bool
  the_outdir :: 'p

text \<open>
  A loop either goes on in a new state or is left by an exception, which nothing in
  \<open>main\<close> catches.
\<close>

datatype ('w, 'p) outcome = Normal "('w, 'p) batch" | Uncaught pyexc "('w, 'p) batch"

text \<open>The body of the inner loop, for the input \<open>infile\<close> and the preset name \<open>n\<close>.\<close>

definition job_step :: "('w, 'p) ctx \<Rightarrow> 'p \<Rightarrow> string \<Rightarrow> ('w, 'p) batch \<Rightarrow> ('w, 'p) outcome" where
  "job_step c infile n s =
     (case the_presets c n of
        None \<Rightarrow> Uncaught (KeyError n) s
      | Some base_p \<Rightarrow>
          (let p = apply_overrides base_p (the_args c)
           in case process_one (the_lib c) (the_call c) infile (the_outdir c) n p (the_dry_run c) s of
                (Inl e, s') \<Rightarrow> Uncaught e s'
              | (Inr code, s') \<Rightarrow>
                  (let s' = s'\<lparr>ran := ran s' @ [(infile, n, code)]\<rparr>
                   in if code \<noteq> 0 then
                        Normal ((print (''Error processing '' @ path_str (the_lib c) infile
                                        @ '' with preset '' @ n
                                        @ '' (exit '' @ str_int code @ '')'') s')
                                \<lparr>exit_code := code\<rparr>)
                      else Normal s')))"

fun names_loop ::
  "('w, 'p) ctx \<Rightarrow> 'p \<Rightarrow> string list \<Rightarrow> ('w, 'p) batch \<Rightarrow> ('w, 'p) outcome" where
  "names_loop c infile [] s = Normal s"
| "names_loop c infile (n # ns) s =
     (case job_step c infile n s of
        Normal s' \<Rightarrow> names_loop c infile ns s'
      | Uncaught e s' \<Rightarrow> Uncaught e s')"

fun inputs_loop ::
  "('w, 'p) ctx \<Rightarrow> 'p list \<Rightarrow> string list \<Rightarrow> ('w, 'p) batch \<Rightarrow> ('w, 'p) outcome" where
  "inputs_loop c [] names s = Normal s"
| "inputs_loop c (infile # inputs) names s =
     (case names_loop c infile names s of
        Normal s' \<Rightarrow> inputs_loop c inputs names s'
      | Uncaught e s' \<Rightarrow> Uncaught e s')"

text \<open>Lines 203 to 213 of \<open>main\<close>: \<open>exit_code = 0\<close>, the two loops, \<open>sys.exit(exit_code)\<close>.\<close>

definition start :: "'w \<Rightarrow> ('w, 'p) batch" where
  "start w = \<lparr>world = w, stdout = [], exit_code = 0, ran = []\<rparr>"

definition run_batch :: "('w, 'p) ctx \<Rightarrow> 'p list \<Rightarrow> string list \<Rightarrow> 'w \<Rightarrow> ('w, 'p) outcome" where
  "run_batch c inputs names w = inputs_loop c inputs names (start w)"

text \<open>
  The exit status of the process: the argument of \<open>sys.exit\<close>, or 1 when the interpreter
  ends on an uncaught exception.
\<close>

definition process_exit :: "('w, 'p) outcome \<Rightarrow> int" where
  "process_exit r = (case r of Normal s \<Rightarrow> exit_code s | Uncaught e s \<Rightarrow> 1)"

section \<open>Reading a batch\<close>

text \<open>
  The command of the job \<open>(infile, n)\<close>, or the exception raised while it is built: what
  lines 206 to 208 of \<open>main\<close> and lines 124 to 126 of \<open>process_one\<close> compute before
  anything is printed or run.
\<close>

definition job_cmd :: "('w, 'p) ctx \<Rightarrow> 'p \<Rightarrow> string \<Rightarrow> pyexc + string list" where
  "job_cmd c infile n =
     (case the_presets c n of
        None \<Rightarrow> Inl (KeyError n)
      | Some base_p \<Rightarrow>
          (let p = apply_overrides base_p (the_args c);
               outfile = path_join (the_lib c) (the_outdir c)
                           (normalize_outname (path_stem (the_lib c) infile) n
                              (get (container p) ''mp4''))
           in build_cmd (the_lib c) infile outfile p))"

text \<open>The two nested loops as one loop over the list of jobs.\<close>

fun jobs_loop ::
  "('w, 'p) ctx \<Rightarrow> ('p \<times> string) list \<Rightarrow> ('w, 'p) batch \<Rightarrow> ('w, 'p) outcome" where
  "jobs_loop c [] s = Normal s"
| "jobs_loop c ((infile, n) # js) s =
     (case job_step c infile n s of
        Normal s' \<Rightarrow> jobs_loop c js s'
      | Uncaught e s' \<Rightarrow> Uncaught e s')"

text \<open>
  The jobs that have run and the codes they returned, from the history. The failures are
  the nonzero codes; \<open>aggregate\<close> is 0 when there is none and the last of them otherwise.
\<close>

definition jobs_run :: "('w, 'p) batch \<Rightarrow> ('p \<times> string) list" where
  "jobs_run s = map (\<lambda>(infile, n, code). (infile, n)) (ran s)"

definition job_codes :: "('w, 'p) batch \<Rightarrow> int list" where
  "job_codes s = map (\<lambda>(infile, n, code). code) (ran s)"

definition failures :: "int list \<Rightarrow> int list" where
  "failures codes = filter (\<lambda>code. code \<noteq> 0) codes"

definition aggregate :: "int list \<Rightarrow> int" where
  "aggregate codes = (if failures codes = [] then 0 else last (failures codes))"

text \<open>The state in which a run of the loop ends, and the exception that ended it.\<close>

definition final_state :: "('w, 'p) outcome \<Rightarrow> ('w, 'p) batch" where
  "final_state r = (case r of Normal s \<Rightarrow> s | Uncaught e s \<Rightarrow> s)"

definition raised :: "('w, 'p) outcome \<Rightarrow> pyexc option" where
  "raised r = (case r of Normal s \<Rightarrow> None | Uncaught e s \<Rightarrow> Some e)"

section \<open>\<open>apply_overrides\<close> on a heap of dictionary objects\<close>

text \<open>
  Python dictionaries are mutable objects, and a preset refers to its encode dictionary.
  To say what \<open>apply_overrides\<close> writes, the same statements are modelled on a heap:
  a list of objects, an address being an index. \<open>dict(d)\<close> allocates a copy of the
  entries of \<open>d\<close> (a shallow one: a reference in it is shared), \<open>{}\<close> allocates an empty
  dictionary, and \<open>d[k] = v\<close> writes to the object \<open>d\<close>.
\<close>

datatype obj = PresetObj "nat preset_of" | EncodeObj encode

type_synonym heap = "obj list"

definition alloc :: "obj \<Rightarrow> heap \<Rightarrow> heap \<times> nat" where
  "alloc ob h = (h @ [ob], length h)"

definition write_preset :: "nat \<Rightarrow> (nat preset_of \<Rightarrow> nat preset_of) \<Rightarrow> heap \<Rightarrow> heap" where
  "write_preset a f h =
     (if a < length h then
        (case h ! a of PresetObj q \<Rightarrow> h[a := PresetObj (f q)] | EncodeObj x \<Rightarrow> h)
      else h)"

definition write_encode :: "nat \<Rightarrow> (encode \<Rightarrow> encode) \<Rightarrow> heap \<Rightarrow> heap" where
  "write_encode a f h =
     (if a < length h then
        (case h ! a of EncodeObj x \<Rightarrow> h[a := EncodeObj (f x)] | PresetObj q \<Rightarrow> h)
      else h)"

definition read_preset :: "heap \<Rightarrow> nat \<Rightarrow> nat preset_of option" where
  "read_preset h a =
     (if a < length h then (case h ! a of PresetObj q \<Rightarrow> Some q | EncodeObj x \<Rightarrow> None)
      else None)"

definition read_encode :: "heap \<Rightarrow> nat \<Rightarrow> encode option" where
  "read_encode h a =
     (if a < length h then (case h ! a of EncodeObj x \<Rightarrow> Some x | PresetObj q \<Rightarrow> None)
      else None)"

text \<open>
  The result is \<open>None\<close> when \<open>p\<close> is not the address of a preset or its encode entry is
  not the address of an encode dictionary: a heap no typed run produces.
\<close>

definition apply_overrides_heap :: "heap \<Rightarrow> nat \<Rightarrow> overrides \<Rightarrow> (heap \<times> nat) option" where
  "apply_overrides_heap h p args =
     (case read_preset h p of
        None \<Rightarrow> None
      | Some base \<Rightarrow>
          (let (h, out) = alloc (PresetObj base) h;
               h = write_preset out (override_head args) h
           in case read_preset h out of
                None \<Rightarrow> None
              | Some q \<Rightarrow>
                  (let (h, src) = (case encode q of
                                     Some e \<Rightarrow> (h, e)
                                   | None \<Rightarrow> alloc (EncodeObj empty_encode) h)
                   in case read_encode h src of
                        None \<Rightarrow> None
                      | Some entries \<Rightarrow>
                          (let (h, enc) = alloc (EncodeObj entries) h;
                               h = write_encode enc (override_encode args) h;
                               h = write_preset out (\<lambda>q. q\<lparr>encode := Some enc\<rparr>) h;
                               h = write_preset out (override_audio args) h
                           in Some (h, out)))))"

text \<open>The value of the preset object at an address: its fields, with the encode dictionary read through the reference.\<close>

definition with_encode :: "'a preset_of \<Rightarrow> 'b option \<Rightarrow> 'b preset_of" where
  "with_encode q e =
     \<lparr>width = width q, height = height q, fps = fps q, strategy = strategy q,
      pad_color = pad_color q, vcodec = vcodec q, pix_fmt = pix_fmt q, profile = profile q,
      audio_bitrate = audio_bitrate q, container = container q, encode = e\<rparr>"

definition preset_at :: "heap \<Rightarrow> nat \<Rightarrow> preset option" where
  "preset_at h a =
     (case read_preset h a of
        None \<Rightarrow> None
      | Some q \<Rightarrow>
          (case encode q of
             None \<Rightarrow> Some (with_encode q None)
           | Some e \<Rightarrow>
               (case read_encode h e of
                  None \<Rightarrow> None
                | Some x \<Rightarrow> Some (with_encode q (Some x)))))"

section \<open>Reading a filter graph\<close>


fun split_where :: "(char \<Rightarrow> bool) \<Rightarrow> string \<Rightarrow> string list" where
  "split_where P [] = [[]]"
| "split_where P (c # cs) =
     (if P c then [] # split_where P cs
      else (case split_where P cs of [] \<Rightarrow> [[c]] | x # xs \<Rightarrow> (c # x) # xs))"



section \<open>Example values\<close>

definition reel :: preset where
  "reel =
     \<lparr>width = Some 1080, height = Some 1920, fps = Some 30, strategy = Some ''cover'',
      pad_color = None, vcodec = None, pix_fmt = None, profile = None, audio_bitrate = None,
      container = None,
      encode = Some \<lparr>mode = Some ''bitrate'', video_bitrate = Some ''6000k'', crf = None,
                     x264_preset = None\<rparr>\<rparr>"

definition no_overrides :: overrides where
  "no_overrides =
     \<lparr>arg_width = None, arg_height = None, arg_fps = None, arg_strategy = None,
      arg_mode = None, arg_video_bitrate = None, arg_crf = None, arg_x264_preset = None,
      arg_audio_bitrate = None\<rparr>"

definition str_lib :: "string pathlib" where
  "str_lib =
     \<lparr>path_str = (\<lambda>p. p), path_stem = takeWhile (\<lambda>c. c \<noteq> CHR ''.''),
      path_join = (\<lambda>d n. d @ ''/'' @ n)\<rparr>"

definition bad_presets :: presets where
  "bad_presets = [''bad'' \<mapsto> reel\<lparr>width := None, height := Some (- 1920)\<rparr>]"

text \<open>
  A directory tree for \<open>collect_inputs\<close>, seen by two runs. A path is the list of its
  parts, which is what \<open>pathlib\<close> compares. The two runs enumerate \<open>VIDEO_EXTS\<close> and the
  matches of \<open>*.mp4\<close> in different orders.
\<close>

definition parts_lib :: "string list pathlib" where
  "parts_lib =
     \<lparr>path_str = join ''/'', path_stem = (\<lambda>p. takeWhile (\<lambda>c. c \<noteq> CHR ''.'') (last p)),
      path_join = (\<lambda>d n. d @ [n])\<rparr>"

definition fs_a :: "string list filesystem" where
  "fs_a =
     \<lparr>is_file = (\<lambda>p. False), is_dir = (\<lambda>p. p = [''videos'']),
      rglob = (\<lambda>d pat. if d = [''videos''] \<and> pat = ''*.mp4''
                          then [[''videos'', ''b.mp4''], [''videos'', ''a'', ''z.mp4'']]
                        else if d = [''videos''] \<and> pat = ''*.mov'' then [[''videos'', ''a-b.mov'']]
                        else []),
      ext_order = [''.mp4'', ''.mov'', ''.m4v'', ''.mkv'', ''.avi'', ''.webm'']\<rparr>"

definition fs_b :: "string list filesystem" where
  "fs_b =
     \<lparr>is_file = (\<lambda>p. False), is_dir = (\<lambda>p. p = [''videos'']),
      rglob = (\<lambda>d pat. if d = [''videos''] \<and> pat = ''*.mp4''
                          then [[''videos'', ''a'', ''z.mp4''], [''videos'', ''b.mp4'']]
                        else if d = [''videos''] \<and> pat = ''*.mov'' then [[''videos'', ''a-b.mov'']]
                        else []),
      ext_order = [''.webm'', ''.mov'', ''.avi'', ''.mkv'', ''.mp4'', ''.m4v'']\<rparr>"

text \<open>
  A batch context: four presets, of which \<open>stretch\<close> has an invalid strategy and \<open>vbr\<close>
  an invalid encode mode, and an encoder whose first run ends with status 3 and every
  later run with 0 (the world is the number of runs so far).
\<close>

definition demo_presets :: presets where
  "demo_presets =
     [''reel'' \<mapsto> reel,
      ''tube'' \<mapsto> reel\<lparr>width := Some 1920, height := Some 1080, strategy := Some ''contain''\<rparr>,
      ''stretch'' \<mapsto> reel\<lparr>strategy := Some ''stretch''\<rparr>,
      ''vbr'' \<mapsto> reel\<lparr>encode := Some \<lparr>mode = Some ''vbr'', video_bitrate = Some ''6000k'',
                                        crf = None, x264_preset = None\<rparr>\<rparr>]"

definition demo_ctx :: "(nat, string) ctx" where
  "demo_ctx =
     \<lparr>the_lib = str_lib,
      the_call = (\<lambda>cmd w. (if w = 0 then 3 else 0, Suc w)),
      the_presets = demo_presets, the_args = no_overrides, the_dry_run = False,
      the_outdir = ''outputs''\<rparr>"

text \<open>
  A heap with the preset \<open>reel\<close> at address 1 and its encode dictionary at address 0.
\<close>

definition demo_heap :: heap where
  "demo_heap =
     [EncodeObj \<lparr>mode = Some ''bitrate'', video_bitrate = Some ''6000k'', crf = None,
                 x264_preset = None\<rparr>,
      PresetObj \<lparr>width = Some 1080, height = Some 1920, fps = Some 30, strategy = Some ''cover'',
                 pad_color = None, vcodec = None, pix_fmt = None, profile = None,
                 audio_bitrate = None, container = None, encode = Some 0\<rparr>]"

section \<open>The override merge\<close>

lemma encode_apply_overrides:
  "encode (apply_overrides p args) = Some (override_encode args (get (encode (override_head args p)) empty_encode))"
  by (simp add: apply_overrides_def override_audio_def Let_def)

lemma mode_override_encode_crf:
  "arg_crf args = Some c \<Longrightarrow> mode (override_encode args enc) = Some ''crf''"
  by (simp add: override_encode_def Let_def)

lemma crf_override_encode_crf:
  "arg_crf args = Some c \<Longrightarrow> crf (override_encode args enc) = Some c"
  by (simp add: override_encode_def Let_def)

text \<open>
  Claim C3. Whenever a crf override is present, the resolved preset has an encode
  dictionary whose mode is \<open>crf\<close> and whose crf is the override, whatever the other
  overrides are, a mode override to \<open>bitrate\<close> included.
\<close>

theorem crf_override_forces_mode_crf:
  assumes "arg_crf args = Some c"
  shows "\<exists>enc. encode (apply_overrides p args) = Some enc \<and> mode enc = Some ''crf'' \<and> crf enc = Some c"
  using assms by (simp add: encode_apply_overrides mode_override_encode_crf crf_override_encode_crf)

theorem crf_override_forces_mode_crf_witness:
  "arg_crf (no_overrides\<lparr>arg_mode := Some ''bitrate'', arg_crf := Some 23\<rparr>) = Some 23 \<and>
   (\<exists>enc. encode (apply_overrides reel (no_overrides\<lparr>arg_mode := Some ''bitrate'', arg_crf := Some 23\<rparr>)) = Some enc
      \<and> mode enc = Some ''crf'' \<and> crf enc = Some 23)"
  using crf_override_forces_mode_crf [of "no_overrides\<lparr>arg_mode := Some ''bitrate'', arg_crf := Some 23\<rparr>" 23 reel]
  by simp

lemma override_head_falsy:
  "override_head (a\<lparr>arg_width := Some 0\<rparr>) = override_head (a\<lparr>arg_width := None\<rparr>)"
  "override_head (a\<lparr>arg_height := Some 0\<rparr>) = override_head (a\<lparr>arg_height := None\<rparr>)"
  "override_head (a\<lparr>arg_fps := Some 0\<rparr>) = override_head (a\<lparr>arg_fps := None\<rparr>)"
  "override_head (a\<lparr>arg_strategy := Some []\<rparr>) = override_head (a\<lparr>arg_strategy := None\<rparr>)"
  by (simp_all add: override_head_def truthy_int_def truthy_str_def Let_def fun_eq_iff cong: if_cong)

lemma override_head_other:
  "override_head (a\<lparr>arg_mode := m\<rparr>) = override_head a"
  "override_head (a\<lparr>arg_video_bitrate := v\<rparr>) = override_head a"
  "override_head (a\<lparr>arg_crf := k\<rparr>) = override_head a"
  "override_head (a\<lparr>arg_x264_preset := x\<rparr>) = override_head a"
  "override_head (a\<lparr>arg_audio_bitrate := b\<rparr>) = override_head a"
  by (simp_all add: override_head_def Let_def fun_eq_iff cong: if_cong)

lemma override_encode_falsy:
  "override_encode (a\<lparr>arg_mode := Some []\<rparr>) = override_encode (a\<lparr>arg_mode := None\<rparr>)"
  "override_encode (a\<lparr>arg_video_bitrate := Some []\<rparr>) = override_encode (a\<lparr>arg_video_bitrate := None\<rparr>)"
  "override_encode (a\<lparr>arg_x264_preset := Some []\<rparr>) = override_encode (a\<lparr>arg_x264_preset := None\<rparr>)"
  by (simp_all add: override_encode_def truthy_str_def Let_def fun_eq_iff cong: if_cong)

lemma override_encode_other:
  "override_encode (a\<lparr>arg_width := w\<rparr>) = override_encode a"
  "override_encode (a\<lparr>arg_height := h\<rparr>) = override_encode a"
  "override_encode (a\<lparr>arg_fps := f\<rparr>) = override_encode a"
  "override_encode (a\<lparr>arg_strategy := s\<rparr>) = override_encode a"
  "override_encode (a\<lparr>arg_audio_bitrate := b\<rparr>) = override_encode a"
  by (simp_all add: override_encode_def Let_def fun_eq_iff cong: if_cong)

lemma override_audio_falsy:
  "override_audio (a\<lparr>arg_audio_bitrate := Some []\<rparr>) = override_audio (a\<lparr>arg_audio_bitrate := None\<rparr>)"
  by (simp add: override_audio_def truthy_str_def fun_eq_iff)

lemma override_audio_other:
  "override_audio (a\<lparr>arg_width := w\<rparr>) = override_audio a"
  "override_audio (a\<lparr>arg_height := h\<rparr>) = override_audio a"
  "override_audio (a\<lparr>arg_fps := f\<rparr>) = override_audio a"
  "override_audio (a\<lparr>arg_strategy := s\<rparr>) = override_audio a"
  "override_audio (a\<lparr>arg_mode := m\<rparr>) = override_audio a"
  "override_audio (a\<lparr>arg_video_bitrate := v\<rparr>) = override_audio a"
  "override_audio (a\<lparr>arg_crf := k\<rparr>) = override_audio a"
  "override_audio (a\<lparr>arg_x264_preset := x\<rparr>) = override_audio a"
  by (simp_all add: override_audio_def fun_eq_iff cong: if_cong)

lemmas override_parts = override_head_falsy override_head_other override_encode_falsy
  override_encode_other override_audio_falsy override_audio_other

lemma apply_overrides_parts:
  "apply_overrides p a =
     override_audio a ((override_head a p)\<lparr>encode :=
        Some (override_encode a (get (encode (override_head a p)) empty_encode))\<rparr>)"
  by (simp add: apply_overrides_def Let_def)

lemma head_keeps_falsy:
  "width (override_head (a\<lparr>arg_width := Some 0\<rparr>) p) = width p"
  "height (override_head (a\<lparr>arg_height := Some 0\<rparr>) p) = height p"
  "fps (override_head (a\<lparr>arg_fps := Some 0\<rparr>) p) = fps p"
  "strategy (override_head (a\<lparr>arg_strategy := Some []\<rparr>) p) = strategy p"
  by (simp_all add: override_head_def truthy_int_def truthy_str_def Let_def)

lemma head_keeps_rest:
  "audio_bitrate (override_head a p) = audio_bitrate p"
  "encode (override_head a p) = encode p"
  by (simp_all add: override_head_def Let_def)

lemma audio_keeps_falsy:
  "audio_bitrate (override_audio (a\<lparr>arg_audio_bitrate := Some []\<rparr>) p) = audio_bitrate p"
  by (simp add: override_audio_def truthy_str_def)

lemma audio_keeps_rest:
  "width (override_audio a p) = width p"
  "height (override_audio a p) = height p"
  "fps (override_audio a p) = fps p"
  "strategy (override_audio a p) = strategy p"
  "encode (override_audio a p) = encode p"
  by (simp_all add: override_audio_def)

lemma encode_keeps_falsy:
  "video_bitrate (override_encode (a\<lparr>arg_video_bitrate := Some []\<rparr>) enc) = video_bitrate enc"
  "x264_preset (override_encode (a\<lparr>arg_x264_preset := Some []\<rparr>) enc) = x264_preset enc"
  "mode (override_encode (a\<lparr>arg_mode := Some [], arg_crf := None\<rparr>) enc) = mode enc"
  by (simp_all add: override_encode_def truthy_str_def Let_def split: option.splits)

text \<open>
  Claim C9. An override of width, height, fps, strategy, mode, video_bitrate, x264_preset
  or audio_bitrate that is 0 or the empty string gives the same result as no such
  override, and the field it names is the one of the base preset: for the fields of
  the encode dictionary, the one of the base's encode dictionary, or of the empty one
  when the base has none (for mode, when no crf override sets it). A crf override of 0
  is applied and sets the mode to \<open>crf\<close>.
\<close>

theorem falsy_overrides_are_absent:
  "apply_overrides p (a\<lparr>arg_width := Some 0\<rparr>) = apply_overrides p (a\<lparr>arg_width := None\<rparr>)
   \<and> apply_overrides p (a\<lparr>arg_height := Some 0\<rparr>) = apply_overrides p (a\<lparr>arg_height := None\<rparr>)
   \<and> apply_overrides p (a\<lparr>arg_fps := Some 0\<rparr>) = apply_overrides p (a\<lparr>arg_fps := None\<rparr>)
   \<and> apply_overrides p (a\<lparr>arg_strategy := Some []\<rparr>) = apply_overrides p (a\<lparr>arg_strategy := None\<rparr>)
   \<and> apply_overrides p (a\<lparr>arg_mode := Some []\<rparr>) = apply_overrides p (a\<lparr>arg_mode := None\<rparr>)
   \<and> apply_overrides p (a\<lparr>arg_video_bitrate := Some []\<rparr>) = apply_overrides p (a\<lparr>arg_video_bitrate := None\<rparr>)
   \<and> apply_overrides p (a\<lparr>arg_x264_preset := Some []\<rparr>) = apply_overrides p (a\<lparr>arg_x264_preset := None\<rparr>)
   \<and> apply_overrides p (a\<lparr>arg_audio_bitrate := Some []\<rparr>) = apply_overrides p (a\<lparr>arg_audio_bitrate := None\<rparr>)
   \<and> width (apply_overrides p (a\<lparr>arg_width := Some 0\<rparr>)) = width p
   \<and> height (apply_overrides p (a\<lparr>arg_height := Some 0\<rparr>)) = height p
   \<and> fps (apply_overrides p (a\<lparr>arg_fps := Some 0\<rparr>)) = fps p
   \<and> strategy (apply_overrides p (a\<lparr>arg_strategy := Some []\<rparr>)) = strategy p
   \<and> audio_bitrate (apply_overrides p (a\<lparr>arg_audio_bitrate := Some []\<rparr>)) = audio_bitrate p
   \<and> map_option video_bitrate (encode (apply_overrides p (a\<lparr>arg_video_bitrate := Some []\<rparr>)))
         = Some (video_bitrate (get (encode p) empty_encode))
   \<and> map_option x264_preset (encode (apply_overrides p (a\<lparr>arg_x264_preset := Some []\<rparr>)))
         = Some (x264_preset (get (encode p) empty_encode))
   \<and> map_option mode (encode (apply_overrides p (a\<lparr>arg_mode := Some [], arg_crf := None\<rparr>)))
         = Some (mode (get (encode p) empty_encode))
   \<and> (\<exists>enc. encode (apply_overrides p (a\<lparr>arg_crf := Some 0\<rparr>)) = Some enc
          \<and> crf enc = Some 0 \<and> mode enc = Some ''crf'')"
proof -
  have same: "apply_overrides p (a\<lparr>arg_width := Some 0\<rparr>) = apply_overrides p (a\<lparr>arg_width := None\<rparr>)
   \<and> apply_overrides p (a\<lparr>arg_height := Some 0\<rparr>) = apply_overrides p (a\<lparr>arg_height := None\<rparr>)
   \<and> apply_overrides p (a\<lparr>arg_fps := Some 0\<rparr>) = apply_overrides p (a\<lparr>arg_fps := None\<rparr>)
   \<and> apply_overrides p (a\<lparr>arg_strategy := Some []\<rparr>) = apply_overrides p (a\<lparr>arg_strategy := None\<rparr>)
   \<and> apply_overrides p (a\<lparr>arg_mode := Some []\<rparr>) = apply_overrides p (a\<lparr>arg_mode := None\<rparr>)
   \<and> apply_overrides p (a\<lparr>arg_video_bitrate := Some []\<rparr>) = apply_overrides p (a\<lparr>arg_video_bitrate := None\<rparr>)
   \<and> apply_overrides p (a\<lparr>arg_x264_preset := Some []\<rparr>) = apply_overrides p (a\<lparr>arg_x264_preset := None\<rparr>)
   \<and> apply_overrides p (a\<lparr>arg_audio_bitrate := Some []\<rparr>) = apply_overrides p (a\<lparr>arg_audio_bitrate := None\<rparr>)"
    by (simp add: apply_overrides_parts override_parts)
  have kept: "width (apply_overrides p (a\<lparr>arg_width := Some 0\<rparr>)) = width p
   \<and> height (apply_overrides p (a\<lparr>arg_height := Some 0\<rparr>)) = height p
   \<and> fps (apply_overrides p (a\<lparr>arg_fps := Some 0\<rparr>)) = fps p
   \<and> strategy (apply_overrides p (a\<lparr>arg_strategy := Some []\<rparr>)) = strategy p
   \<and> audio_bitrate (apply_overrides p (a\<lparr>arg_audio_bitrate := Some []\<rparr>)) = audio_bitrate p"
    by (simp add: apply_overrides_parts audio_keeps_rest audio_keeps_falsy head_keeps_falsy
          head_keeps_rest)
  have enc: "map_option video_bitrate (encode (apply_overrides p (a\<lparr>arg_video_bitrate := Some []\<rparr>)))
         = Some (video_bitrate (get (encode p) empty_encode))
   \<and> map_option x264_preset (encode (apply_overrides p (a\<lparr>arg_x264_preset := Some []\<rparr>)))
         = Some (x264_preset (get (encode p) empty_encode))
   \<and> map_option mode (encode (apply_overrides p (a\<lparr>arg_mode := Some [], arg_crf := None\<rparr>)))
         = Some (mode (get (encode p) empty_encode))"
    by (simp add: encode_apply_overrides head_keeps_rest encode_keeps_falsy)
  have crf0: "\<exists>enc. encode (apply_overrides p (a\<lparr>arg_crf := Some 0\<rparr>)) = Some enc
          \<and> crf enc = Some 0 \<and> mode enc = Some ''crf''"
    by (simp add: encode_apply_overrides mode_override_encode_crf crf_override_encode_crf)
  from same kept enc crf0 show ?thesis by simp
qed

theorem falsy_overrides_are_absent_witness:
  "width (apply_overrides reel (no_overrides\<lparr>arg_fps := Some 60, arg_width := Some 0\<rparr>)) = Some 1080
   \<and> fps (apply_overrides reel (no_overrides\<lparr>arg_fps := Some 60, arg_width := Some 0\<rparr>)) = Some 60
   \<and> map_option video_bitrate
        (encode (apply_overrides reel (no_overrides\<lparr>arg_fps := Some 60, arg_video_bitrate := Some []\<rparr>)))
       = Some (Some ''6000k'')"
  using falsy_overrides_are_absent [of reel "no_overrides\<lparr>arg_fps := Some 60\<rparr>"]
  by (simp add: reel_def no_overrides_def get_def apply_overrides_def override_head_def
        override_audio_def override_encode_def truthy_int_def truthy_str_def Let_def)

section \<open>The preset store\<close>

text \<open>
  Claim C7, as amended. \<open>load_presets\<close> checks nothing in the presets: it returns a
  mapping exactly when the file parses, and then the parsed mapping itself. A missing
  width or height is found only when \<open>build_cmd\<close> builds a job, as a \<open>KeyError\<close>.
\<close>

theorem load_presets_no_validation:
  "(load_presets lib preset_path src = Inr doc) = (src = Json doc)
   \<and> build_cmd lib infile outfile (p\<lparr>width := None\<rparr>) = Inl (KeyError ''width'')
   \<and> build_cmd lib infile outfile (p\<lparr>width := Some w, height := None\<rparr>) = Inl (KeyError ''height'')"
  by (cases src) (auto simp add: load_presets_def build_cmd_def)

text \<open>
  Claim C7 as stated fails: a preset with no width and a negative height is loaded.
\<close>

theorem load_accepts_invalid_preset:
  "load_presets str_lib ''presets.json'' (Json bad_presets) = Inr bad_presets
   \<and> map_option width (bad_presets ''bad'') = Some None
   \<and> map_option height (bad_presets ''bad'') = Some (Some (- 1920))"
  by (simp add: load_presets_def bad_presets_def)

section \<open>The rate-control arguments\<close>

lemmas eval_defs = build_video_args_def get_def lower_def lower_char_def py_int_def strip_space_def is_space_def nat_literal_def is_digit_def digit_val_def str_int_def str_nat.simps digit_char_def Let_def

text \<open>
  Claim C4 at the target bitrate \<open>6M\<close>: \<open>-b:v\<close> and \<open>-maxrate\<close> are \<open>6M\<close>, and
  \<open>-bufsize\<close> is \<open>12k\<close>, not \<open>12M\<close>: the unit written is always \<open>k\<close>.
\<close>

theorem bufsize_unit_is_always_k:
  "build_video_args \<lparr>mode = Some ''bitrate'', video_bitrate = Some ''6M'', crf = None, x264_preset = None\<rparr>
     = Inr [''-preset'', ''medium'', ''-b:v'', ''6M'', ''-maxrate'', ''6M'', ''-bufsize'', ''12k'']"
  by (simp add: eval_defs)

text \<open>
  Claim C5 as stated fails: the bitrate \<open>6000x\<close> has the unrecognized suffix \<open>x\<close> and
  raises nothing; the suffix is dropped and the buffer size is written as \<open>12000k\<close>.
\<close>

theorem unrecognized_suffix_is_accepted:
  "build_video_args \<lparr>mode = Some ''bitrate'', video_bitrate = Some ''6000x'', crf = None, x264_preset = None\<rparr>
     = Inr [''-preset'', ''medium'', ''-b:v'', ''6000x'', ''-maxrate'', ''6000x'', ''-bufsize'', ''12000k'']"
  by (simp add: eval_defs)

lemma int_digits_all_digits: "list_all is_digit cs \<Longrightarrow> int_digits acc cs \<noteq> None"
  by (induction acc cs rule: int_digits.induct) auto

lemma strip_space_digits:
  assumes "list_all is_digit ds"
  shows "strip_space ds = ds"
proof (cases ds rule: rev_cases)
  case Nil
  then show ?thesis by (simp add: strip_space_def)
next
  case (snoc ys y)
  have nd: "\<And>c. is_digit c \<Longrightarrow> \<not> is_space c"
    by (auto simp add: is_digit_def is_space_def)
  from snoc assms have y: "\<not> is_space y" by (simp add: nd)
  have "dropWhile is_space ds = ds"
    using assms nd by (cases ds) auto
  then show ?thesis
    using snoc y by (simp add: strip_space_def)
qed

lemma py_int_digits:
  assumes "ds \<noteq> []" and "list_all is_digit ds"
  shows "py_int ds \<noteq> None"
proof -
  obtain c cs where ds: "ds = c # cs" using assms(1) by (cases ds) auto
  with assms(2) have c: "is_digit c" and cs: "list_all is_digit cs" by auto
  from c have sign: "c \<noteq> CHR ''-''" "c \<noteq> CHR ''+''" by (auto simp add: is_digit_def)
  have "strip_space ds = c # cs"
    using strip_space_digits [OF assms(2)] ds by simp
  then have "py_int ds = map_option int (int_digits (digit_val c) cs)"
    using sign c by (simp add: py_int_def nat_literal_def)
  then show ?thesis
    using int_digits_all_digits [OF cs, of "digit_val c"] by simp
qed

text \<open>
  Claim C5, as amended. In bitrate mode \<open>build_video_args\<close> raises exactly when \<open>int\<close>
  rejects the bitrate text without its last character, and what it raises is the
  \<open>ValueError\<close> of \<open>int\<close> on that text. The last character is not looked at: for every
  text \<open>body\<close> and every last character \<open>c\<close>, the bitrate \<open>body @ [c]\<close> raises exactly
  when \<open>int\<close> rejects \<open>body\<close>.
\<close>

theorem bitrate_error_iff_prefix_not_int:
  assumes "lower (get (mode enc) ''bitrate'') = ''bitrate''"
  shows "(build_video_args enc = Inl (IntValueError (butlast (get (video_bitrate enc) ''5000k''))))
           = (py_int (butlast (get (video_bitrate enc) ''5000k'')) = None)
     \<and> isl (build_video_args enc) = (py_int (butlast (get (video_bitrate enc) ''5000k'')) = None)
     \<and> isl (build_video_args (enc\<lparr>video_bitrate := Some (body @ [c])\<rparr>)) = (py_int body = None)
     \<and> (build_video_args (enc\<lparr>video_bitrate := Some (body @ [c])\<rparr>) = Inl (IntValueError body))
           = (py_int body = None)"
  using assms
  by (auto simp add: build_video_args_def get_def Let_def split: option.splits)

theorem bitrate_error_iff_prefix_not_int_witness:
  "build_video_args \<lparr>mode = Some ''bitrate'', video_bitrate = Some ''60x0k'', crf = None,
                       x264_preset = None\<rparr> = Inl (IntValueError ''60x0'')
   \<and> py_int ''60x0'' = None
   \<and> \<not> isl (build_video_args \<lparr>mode = Some ''bitrate'', video_bitrate = Some ''6000?'', crf = None,
                       x264_preset = None\<rparr>)
   \<and> py_int ''6000'' = Some 6000"
  using bitrate_error_iff_prefix_not_int
          [of "\<lparr>mode = Some ''bitrate'', video_bitrate = Some ''60x0k'', crf = None,
                x264_preset = None\<rparr>" "''6000''" "CHR ''?''"]
  by (simp add: eval_defs)

section \<open>The filter graph\<close>

lemma split_where_no_sep: "\<forall>c\<in>set xs. \<not> P c \<Longrightarrow> split_where P xs = [xs]"
  by (induction xs) auto





















section \<open>The input list\<close>

lemma foldl_extend: "foldl (\<lambda>files ext. files @ g ext) acc exts = acc @ concat (map g exts)"
  by (induction exts arbitrary: acc) simp_all

lemma mset_matches:
  assumes "distinct exts"
  shows "mset (concat (map g exts)) = (\<Sum>ext\<in>set exts. mset (g ext))"
  using assms by (induction exts) simp_all

text \<open>
  Claim C10. For a directory, \<open>collect_inputs\<close> returns a sorted list that holds exactly
  the matches of \<open>rglob\<close> for the patterns \<open>*ext\<close>, \<open>ext\<close> in \<open>VIDEO_EXTS\<close>, each as
  often as it is matched. The list is the same for every run that sees the same
  matches, in whatever order it enumerates the extensions and \<open>rglob\<close> yields the
  matches: the job order depends on the file set only.
\<close>

theorem collect_inputs_sorted_deterministic:
  assumes "\<not> is_file fs d" and "is_dir fs d" and "\<not> is_file fs' d" and "is_dir fs' d"
    and "distinct (ext_order fs)" and "set (ext_order fs) = VIDEO_EXTS"
    and "distinct (ext_order fs')" and "set (ext_order fs') = VIDEO_EXTS"
    and "\<forall>ext\<in>VIDEO_EXTS. mset (rglob fs' d (''*'' @ ext)) = mset (rglob fs d (''*'' @ ext))"
  shows "\<exists>files. fst (collect_inputs lib fs d) = Inr files
           \<and> sorted files
           \<and> mset files = (\<Sum>ext\<in>VIDEO_EXTS. mset (rglob fs d (''*'' @ ext)))
           \<and> fst (collect_inputs lib fs' d) = Inr files"
proof -
  let ?g = "\<lambda>fs ext. rglob fs d (''*'' @ ext)"
  let ?all = "\<lambda>fs. concat (map (?g fs) (ext_order fs))"
  have a: "fst (collect_inputs lib fs d) = Inr (sort (?all fs))"
    using assms(1,2) by (simp add: collect_inputs_def foldl_extend Let_def)
  have b: "fst (collect_inputs lib fs' d) = Inr (sort (?all fs'))"
    using assms(3,4) by (simp add: collect_inputs_def foldl_extend Let_def)
  have m: "mset (?all fs) = (\<Sum>ext\<in>VIDEO_EXTS. mset (?g fs ext))"
    using mset_matches [OF assms(5), of "?g fs"] assms(6) by simp
  have "mset (?all fs') = (\<Sum>ext\<in>VIDEO_EXTS. mset (?g fs' ext))"
    using mset_matches [OF assms(7), of "?g fs'"] assms(8) by simp
  also have "\<dots> = (\<Sum>ext\<in>VIDEO_EXTS. mset (?g fs ext))"
    using assms(9) by (intro sum.cong) simp_all
  finally have same: "mset (?all fs') = mset (?all fs)"
    using m by simp
  have "sort (?all fs') = sort (?all fs)"
    using same by (intro properties_for_sort) simp_all
  with a b m show ?thesis by simp
qed

theorem collect_inputs_sorted_deterministic_witness:
  "fst (collect_inputs parts_lib fs_a [''videos''])
     = Inr [[''videos'', ''a'', ''z.mp4''], [''videos'', ''a-b.mov''], [''videos'', ''b.mp4'']]
   \<and> fst (collect_inputs parts_lib fs_b [''videos''])
     = Inr [[''videos'', ''a'', ''z.mp4''], [''videos'', ''a-b.mov''], [''videos'', ''b.mp4'']]
   \<and> ext_order fs_a \<noteq> ext_order fs_b
   \<and> rglob fs_a [''videos''] ''*.mp4'' \<noteq> rglob fs_b [''videos''] ''*.mp4''"
proof -
  have dir: "\<not> is_file fs_a [''videos'']" "is_dir fs_a [''videos'']"
      "\<not> is_file fs_b [''videos'']" "is_dir fs_b [''videos'']"
    by (simp_all add: fs_a_def fs_b_def)
  have exts: "distinct (ext_order fs_a)" "set (ext_order fs_a) = VIDEO_EXTS"
      "distinct (ext_order fs_b)" "set (ext_order fs_b) = VIDEO_EXTS"
    by (auto simp add: fs_a_def fs_b_def VIDEO_EXTS_def)
  have same: "\<forall>ext\<in>VIDEO_EXTS.
      mset (rglob fs_b [''videos''] (''*'' @ ext)) = mset (rglob fs_a [''videos''] (''*'' @ ext))"
    by (simp add: fs_a_def fs_b_def VIDEO_EXTS_def)
  obtain files where
      a: "fst (collect_inputs parts_lib fs_a [''videos'']) = Inr files"
      and b: "fst (collect_inputs parts_lib fs_b [''videos'']) = Inr files"
    using collect_inputs_sorted_deterministic [OF dir exts same, of parts_lib] by blast
  have "fst (collect_inputs parts_lib fs_a [''videos''])
     = Inr [[''videos'', ''a'', ''z.mp4''], [''videos'', ''a-b.mov''], [''videos'', ''b.mp4'']]"
    by (simp add: collect_inputs_def fs_a_def Let_def)
  with a b show ?thesis by (simp add: fs_a_def fs_b_def)
qed

section \<open>The batch loop\<close>

lemma job_step_raise: "job_cmd c f n = Inl e \<Longrightarrow> job_step c f n s = Uncaught e s"
  by (auto simp add: job_cmd_def job_step_def process_one_def Let_def split: option.splits)

lemma job_step_run:
  assumes "job_cmd c f n = Inr cmd"
  shows "\<exists>s' code. job_step c f n s = Normal s' \<and> ran s' = ran s @ [(f, n, code)]
           \<and> exit_code s' = (if code \<noteq> 0 then code else exit_code s)"
  using assms
  by (auto simp add: job_cmd_def job_step_def process_one_def print_def Let_def
           split: option.splits prod.splits)

lemma aggregate_snoc:
  "aggregate (codes @ [code]) = (if code \<noteq> 0 then code else aggregate codes)"
  by (simp add: aggregate_def failures_def)

lemma jobs_loop_append:
  "jobs_loop c (xs @ ys) s =
     (case jobs_loop c xs s of Normal s' \<Rightarrow> jobs_loop c ys s' | Uncaught e s' \<Rightarrow> Uncaught e s')"
  by (induction c xs s rule: jobs_loop.induct) (auto split: outcome.splits)

lemma names_loop_jobs: "names_loop c f ns s = jobs_loop c (map (Pair f) ns) s"
  by (induction ns arbitrary: s) (auto split: outcome.splits)

lemma inputs_loop_jobs: "inputs_loop c fs ns s = jobs_loop c (List.product fs ns) s"
  by (induction fs arbitrary: s) (auto simp add: jobs_loop_append names_loop_jobs split: outcome.splits)

lemma jobs_loop_builds:
  assumes "\<forall>j\<in>set js. \<not> isl (job_cmd c (fst j) (snd j))"
    and "exit_code s = aggregate (job_codes s)"
  shows "\<exists>s'. jobs_loop c js s = Normal s' \<and> jobs_run s' = jobs_run s @ js
           \<and> exit_code s' = aggregate (job_codes s')"
  using assms
proof (induction js arbitrary: s)
  case Nil
  then show ?case by simp
next
  case (Cons j js)
  obtain f n where j: "j = (f, n)" by (cases j)
  from Cons.prems(1) j obtain cmd where "job_cmd c f n = Inr cmd"
    by (cases "job_cmd c f n") auto
  from job_step_run [OF this, of s] obtain s1 code where
      s1: "job_step c f n s = Normal s1" "ran s1 = ran s @ [(f, n, code)]"
        "exit_code s1 = (if code \<noteq> 0 then code else exit_code s)"
    by blast
  have inv: "exit_code s1 = aggregate (job_codes s1)"
    using s1 Cons.prems(2) by (simp add: job_codes_def aggregate_snoc)
  from Cons.IH [OF _ inv] Cons.prems(1) obtain s' where
      "jobs_loop c js s1 = Normal s'" "jobs_run s' = jobs_run s1 @ js"
      "exit_code s' = aggregate (job_codes s')"
    by auto
  then show ?case
    using s1 j by (simp add: jobs_run_def)
qed

lemma start_inv: "exit_code (start w) = aggregate (job_codes (start w))"
  by (simp add: start_def job_codes_def aggregate_def failures_def)


lemma jobs_loop_raise:
  assumes "\<forall>j\<in>set pre. \<not> isl (job_cmd c (fst j) (snd j))"
    and "exit_code s = aggregate (job_codes s)"
    and "job_cmd c f n = Inl e"
  shows "\<exists>s'. jobs_loop c pre s = Normal s' \<and> jobs_run s' = jobs_run s @ pre
           \<and> jobs_loop c (pre @ (f, n) # post) s = Uncaught e s'"
proof -
  from jobs_loop_builds [OF assms(1,2)] obtain s' where
      s': "jobs_loop c pre s = Normal s'" "jobs_run s' = jobs_run s @ pre"
    by blast
  then show ?thesis
    using job_step_raise [OF assms(3), of s'] by (simp add: jobs_loop_append)
qed

text \<open>
  Claim C1, as amended. An exception raised while the command of a job is built, the
  \<open>ValueError\<close> of \<open>build_filter\<close> and of \<open>build_video_args\<close> included, is not caught:
  the batch ends there, in the state reached after the jobs before it, so nothing is
  printed for the job, no later job runs, and the process exits with status 1.
\<close>

theorem build_error_aborts_batch:
  assumes "List.product inputs names = pre @ (f, n) # post"
    and "\<forall>j\<in>set pre. \<not> isl (job_cmd c (fst j) (snd j))"
    and "job_cmd c f n = Inl e"
  shows "\<exists>s. jobs_loop c pre (start w) = Normal s
           \<and> jobs_run s = pre
           \<and> run_batch c inputs names w = Uncaught e s
           \<and> process_exit (run_batch c inputs names w) = 1"
proof -
  from jobs_loop_raise [OF assms(2) start_inv assms(3), of w post] obtain s where
      "jobs_loop c pre (start w) = Normal s" "jobs_run s = jobs_run (start w) @ pre"
      "jobs_loop c (pre @ (f, n) # post) (start w) = Uncaught e s"
    by blast
  then show ?thesis
    using assms(1)
    by (simp add: run_batch_def inputs_loop_jobs process_exit_def jobs_run_def start_def)
qed


lemmas batch_defs = run_batch_def start_def job_step_def process_one_def build_cmd_def
  build_filter_def apply_overrides_def override_head_def override_encode_def override_audio_def
  truthy_int_def truthy_str_def print_def normalize_outname_def str_lib_def demo_ctx_def
  demo_presets_def reel_def no_overrides_def default_encode_def empty_encode_def
  process_exit_def final_state_def raised_def jobs_run_def job_codes_def job_cmd_def

text \<open>
  Claim C1 as stated fails: the first job has an invalid strategy; the \<open>ValueError\<close>
  leaves the loop, nothing has been printed, and the job of the valid preset \<open>reel\<close>
  has not run.
\<close>

theorem invalid_strategy_is_not_caught:
  "run_batch demo_ctx [''a.mp4''] [''stretch'', ''reel''] 0
     = Uncaught (ValueError (''strategy must be 'cover' or 'contain'' @ [CHR 0x27]))
         \<lparr>world = 0, stdout = [], exit_code = 0, ran = []\<rparr>"
  by (simp add: batch_defs eval_defs)



theorem build_error_aborts_batch_witness:
  "raised (run_batch demo_ctx [''a.mp4'', ''b.mp4''] [''reel'', ''vbr''] 0)
     = Some (ValueError (''encode.mode must be 'bitrate' or 'crf'' @ [CHR 0x27]))
   \<and> jobs_run (final_state (run_batch demo_ctx [''a.mp4'', ''b.mp4''] [''reel'', ''vbr''] 0))
     = [(''a.mp4'', ''reel'')]
   \<and> process_exit (run_batch demo_ctx [''a.mp4'', ''b.mp4''] [''reel'', ''vbr''] 0) = 1"
proof -
  have jobs: "List.product [''a.mp4'', ''b.mp4''] [''reel'', ''vbr'']
      = [(''a.mp4'', ''reel'')] @ (''a.mp4'', ''vbr'') # [(''b.mp4'', ''reel''), (''b.mp4'', ''vbr'')]"
    by simp
  have builds: "\<forall>j\<in>set [(''a.mp4'', ''reel'')]. \<not> isl (job_cmd demo_ctx (fst j) (snd j))"
    by (simp add: batch_defs eval_defs)
  have raises: "job_cmd demo_ctx ''a.mp4'' ''vbr''
      = Inl (ValueError (''encode.mode must be 'bitrate' or 'crf'' @ [CHR 0x27]))"
    by (simp add: batch_defs eval_defs)
  from build_error_aborts_batch [OF jobs builds raises, of 0] show ?thesis
    by (auto simp add: final_state_def raised_def)
qed

section \<open>The override merge on the heap\<close>

lemma with_encode_head: "with_encode (override_head args q) e = override_head args (with_encode q e)"
  by (simp add: with_encode_def override_head_def Let_def)

lemma with_encode_audio: "with_encode (override_audio args q) e = override_audio args (with_encode q e)"
  by (simp add: with_encode_def override_audio_def)

lemma with_encode_update: "with_encode (q\<lparr>encode := a\<rparr>) e = with_encode q e"
  by (simp add: with_encode_def)

lemma with_encode_update2: "(with_encode q eo)\<lparr>encode := e\<rparr> = with_encode q e"
  by (simp add: with_encode_def)

lemma encode_override_head: "encode (override_head args q) = encode q"
  by (simp add: override_head_def Let_def)

lemma encode_override_audio: "encode (override_audio args q) = encode q"
  by (simp add: override_audio_def)

lemma encode_with_encode: "encode (with_encode q e) = e"
  by (simp add: with_encode_def)

lemma apply_overrides_with_encode:
  "apply_overrides (with_encode q eo) args =
     with_encode (override_audio args (override_head args q))
       (Some (override_encode args (get eo empty_encode)))"
  unfolding apply_overrides_parts
  by (simp only: with_encode_head [symmetric] encode_with_encode with_encode_update2
        with_encode_audio)

lemmas heap_defs = alloc_def write_preset_def write_encode_def read_preset_def read_encode_def

lemma apply_overrides_heap_no_encode:
  assumes "read_preset h p = Some q" and "encode q = None"
  shows "apply_overrides_heap h p args =
           Some (h @ [PresetObj (override_audio args ((override_head args q)\<lparr>encode := Some (length h + 2)\<rparr>)),
                      EncodeObj empty_encode,
                      EncodeObj (override_encode args empty_encode)], length h)"
  using assms
  by (simp add: apply_overrides_heap_def heap_defs encode_override_head nth_append list_update_append Let_def)

lemma apply_overrides_heap_encode:
  assumes "read_preset h p = Some q" and "encode q = Some e" and "read_encode h e = Some x"
  shows "apply_overrides_heap h p args =
           Some (h @ [PresetObj (override_audio args ((override_head args q)\<lparr>encode := Some (length h + 1)\<rparr>)),
                      EncodeObj (override_encode args x)], length h)"
proof -
  have e: "e < length h" "h ! e = EncodeObj x"
    using assms(3) by (auto simp add: read_encode_def split: if_splits obj.splits)
  show ?thesis
    using assms(1,2) e
    by (simp add: apply_overrides_heap_def heap_defs encode_override_head nth_append list_update_append Let_def)
qed


lemma preset_at_append:
  assumes "preset_at h p = Some b"
  shows "preset_at (h @ xs) p = Some b"
  using assms
  by (auto simp add: preset_at_def read_preset_def read_encode_def nth_append
           split: option.splits if_splits obj.splits)

lemma preset_at_result:
  assumes "read_preset h a = Some (override_audio args (r\<lparr>encode := Some e\<rparr>))"
    and "read_encode h e = Some y"
  shows "preset_at h a = Some (with_encode (override_audio args r) (Some y))"
  using assms
  by (simp add: preset_at_def encode_override_audio with_encode_audio with_encode_update)

text \<open>
  Claim C8. On a heap where \<open>p\<close> is the address of a preset of value \<open>base\<close>,
  \<open>apply_overrides\<close> returns the address \<open>out\<close> of a new object; every object of the heap
  before the call is unchanged, so the base preset and its encode dictionary are (the
  value at \<open>p\<close> is still \<open>base\<close>); the encode dictionary of the result is a new object
  too; and the value of the result is \<open>apply_overrides base args\<close>, a function of the
  base value and the overrides alone.
\<close>

theorem apply_overrides_leaves_base:
  assumes "preset_at h p = Some base"
  shows "\<exists>h' out. apply_overrides_heap h p args = Some (h', out)
           \<and> take (length h) h' = h
           \<and> length h \<le> out
           \<and> preset_at h' p = Some base
           \<and> preset_at h' out = Some (apply_overrides base args)
           \<and> (\<exists>q e. read_preset h' out = Some q \<and> encode q = Some e \<and> length h \<le> e)"
proof -
  from assms obtain q where q: "read_preset h p = Some q"
    by (auto simp add: preset_at_def split: option.splits)
  show ?thesis
  proof (cases "encode q")
    case None
    let ?q' = "override_audio args ((override_head args q)\<lparr>encode := Some (length h + 2)\<rparr>)"
    let ?h' = "h @ [PresetObj ?q', EncodeObj empty_encode, EncodeObj (override_encode args empty_encode)]"
    have base: "base = with_encode q None"
      using assms q None by (simp add: preset_at_def)
    have run: "apply_overrides_heap h p args = Some (?h', length h)"
      using q None by (rule apply_overrides_heap_no_encode)
    have rp: "read_preset ?h' (length h) = Some ?q'"
      by (simp add: read_preset_def)
    have re: "read_encode ?h' (length h + 2) = Some (override_encode args empty_encode)"
      by (simp add: read_encode_def nth_append)
    have "preset_at ?h' (length h) = Some (apply_overrides base args)"
      using preset_at_result [OF rp re]
      by (simp add: base apply_overrides_with_encode get_def)
    moreover have "preset_at ?h' p = Some base"
      using assms by (rule preset_at_append)
    moreover have "encode ?q' = Some (length h + 2)"
      by (simp add: encode_override_audio)
    ultimately show ?thesis
      using run rp by simp
  next
    case (Some e)
    from assms q Some obtain x where x: "read_encode h e = Some x"
      and base: "base = with_encode q (Some x)"
      by (auto simp add: preset_at_def split: option.splits)
    let ?q' = "override_audio args ((override_head args q)\<lparr>encode := Some (length h + 1)\<rparr>)"
    let ?h' = "h @ [PresetObj ?q', EncodeObj (override_encode args x)]"
    have run: "apply_overrides_heap h p args = Some (?h', length h)"
      using q Some x by (rule apply_overrides_heap_encode)
    have rp: "read_preset ?h' (length h) = Some ?q'"
      by (simp add: read_preset_def)
    have re: "read_encode ?h' (length h + 1) = Some (override_encode args x)"
      by (simp add: read_encode_def nth_append)
    have "preset_at ?h' (length h) = Some (apply_overrides base args)"
      using preset_at_result [OF rp re]
      by (simp add: base apply_overrides_with_encode get_def)
    moreover have "preset_at ?h' p = Some base"
      using assms by (rule preset_at_append)
    moreover have "encode ?q' = Some (length h + 1)"
      by (simp add: encode_override_audio)
    ultimately show ?thesis
      using run rp by simp
  qed
qed

theorem apply_overrides_leaves_base_witness:
  "preset_at demo_heap 1 = Some reel
   \<and> (\<exists>h' out. apply_overrides_heap demo_heap 1
                      (no_overrides\<lparr>arg_width := Some 720, arg_crf := Some 23\<rparr>) = Some (h', out)
          \<and> take 2 h' = demo_heap
          \<and> 2 \<le> out
          \<and> preset_at h' 1 = Some reel
          \<and> map_option width (preset_at h' out) = Some (Some 720)
          \<and> map_option (\<lambda>r. map_option crf (encode r)) (preset_at h' out) = Some (Some (Some 23)))"
proof -
  have base: "preset_at demo_heap 1 = Some reel"
    by (simp add: demo_heap_def preset_at_def read_preset_def read_encode_def with_encode_def reel_def)
  have len: "length demo_heap = 2"
    by (simp add: demo_heap_def)
  have res: "width (apply_overrides reel (no_overrides\<lparr>arg_width := Some 720, arg_crf := Some 23\<rparr>)) = Some 720"
    "map_option crf (encode (apply_overrides reel (no_overrides\<lparr>arg_width := Some 720, arg_crf := Some 23\<rparr>))) = Some (Some 23)"
    by (simp_all add: apply_overrides_def override_head_def override_encode_def override_audio_def
          truthy_int_def truthy_str_def no_overrides_def reel_def get_def Let_def)
  from apply_overrides_leaves_base [OF base, of "no_overrides\<lparr>arg_width := Some 720, arg_crf := Some 23\<rparr>"]
  show ?thesis
    using base len res by auto
qed

end
